theory Spec2Isabelle
  imports Main
begin

section \<open>Complexity items (extension.ts, interface ComplexityItem)\<close>

text \<open>
  \<^verbatim>\<open>interface ComplexityItem { score?: number; line?: number; inner?: ComplexityItem[] }\<close>
  Every field is optional, hence an \<open>option\<close>. Scores and lines are whole numbers
  in the analyzer's output and are modelled as \<open>int\<close>.
\<close>

datatype ComplexityItem =
  ComplexityItem (score: "int option") (line: "int option") (inner: "ComplexityItem list option")

text \<open>\<^verbatim>\<open>item.score || 0\<close>: an absent score (and the score 0) reads as 0.\<close>

definition scoreOr0 :: "ComplexityItem \<Rightarrow> int" where
  "scoreOr0 item = (case score item of None \<Rightarrow> 0 | Some s \<Rightarrow> s)"

text \<open>\<^verbatim>\<open>item.line || 0\<close>.\<close>

definition lineOr0 :: "ComplexityItem \<Rightarrow> int" where
  "lineOr0 item = (case line item of None \<Rightarrow> 0 | Some l \<Rightarrow> l)"

text \<open>\<^verbatim>\<open>item.inner || []\<close>: an array is truthy even when empty, so only an absent
  \<open>inner\<close> is replaced.\<close>

definition innerOrEmpty :: "ComplexityItem \<Rightarrow> ComplexityItem list" where
  "innerOrEmpty item = (case inner item of None \<Rightarrow> [] | Some xs \<Rightarrow> xs)"

text \<open>The truthiness test \<^verbatim>\<open>item.line\<close> in a condition: an absent line and the
  line 0 are both falsy.\<close>

definition lineTruthy :: "ComplexityItem \<Rightarrow> bool" where
  "lineTruthy item = (case line item of None \<Rightarrow> False | Some l \<Rightarrow> l \<noteq> 0)"

lemma size_innerOrEmpty: "size_list size (innerOrEmpty item) < size item"
  by (cases item) (auto simp: innerOrEmpty_def split: option.splits)

lemma size_innerOrEmpty_member:
  "item \<in> set xs \<Longrightarrow> size_list size (innerOrEmpty item) < size_list size xs"
  using size_innerOrEmpty[of item] by (induction xs) (auto simp: less_Suc_eq)

lemma size_innerOrEmpty_Cons [termination_simp]:
  "size_list size (innerOrEmpty n) < Suc (size n + k)"
  using size_innerOrEmpty[of n] by simp

subsection \<open>getScoreSum\<close>

text \<open>
  \<^verbatim>\<open>
  function getScoreSum(inner: ComplexityItem[]): number {
      return inner.reduce((acc, item) => {
          const sum = getScoreSum(item.inner || []);
          return acc + (item.score || 0) + sum;
      }, 0);
  }\<close>
  \<open>reduce\<close> is a left fold; the recursion descends into every \<open>inner\<close> array.
\<close>

function getScoreSum :: "ComplexityItem list \<Rightarrow> int" where
  "getScoreSum items =
     foldl (\<lambda>acc item. acc + scoreOr0 item + getScoreSum (innerOrEmpty item)) 0 items"
  by pat_completeness auto
termination
  by (relation "measure (size_list size)") (simp_all add: size_innerOrEmpty_member)

declare getScoreSum.simps [simp del]

subsection \<open>flattenInner\<close>

text \<open>
  \<^verbatim>\<open>
  function flattenInner(inner: ComplexityItem[]): ComplexityItem[] {
      return (inner || []).reduce((acc: ComplexityItem[], item) => {
          const nestedFlattened = flattenInner(item.inner || []);
          const adjustedScore = (item.score || 0) - getScoreSum(item.inner || []);
          if (adjustedScore > 0 && item.line) {
              acc.push({ ...item, score: adjustedScore });
          }
          return acc.concat(nestedFlattened);
      }, []);
  }\<close>
  The pushed object is the item with its score replaced; \<open>line\<close> and \<open>inner\<close>
  are carried over by the spread. The guard \<^verbatim>\<open>inner || []\<close> on the argument is
  applied by the caller in this model (\<open>innerOrEmpty\<close>, and \<open>outputInner\<close> below).
\<close>

definition adjustedScore :: "ComplexityItem \<Rightarrow> int" where
  "adjustedScore item = scoreOr0 item - getScoreSum (innerOrEmpty item)"

function flattenInner :: "ComplexityItem list \<Rightarrow> ComplexityItem list" where
  "flattenInner items =
     foldl (\<lambda>acc item.
        let nestedFlattened = flattenInner (innerOrEmpty item)
        in (if adjustedScore item > 0 \<and> lineTruthy item
            then acc @ [ComplexityItem (Some (adjustedScore item)) (line item) (inner item)]
            else acc) @ nestedFlattened) [] items"
  by pat_completeness auto
termination
  by (relation "measure (size_list size)") (simp_all add: size_innerOrEmpty_member)

declare flattenInner.simps [simp del]

subsection \<open>Vocabulary for the claims about flattening\<close>

text \<open>All nodes of a forest in pre-order: a node, then everything below it, then its
  later siblings.\<close>

fun nodes :: "ComplexityItem list \<Rightarrow> ComplexityItem list" where
  "nodes [] = []"
| "nodes (n # ns) = n # nodes (innerOrEmpty n) @ nodes ns"

text \<open>The condition under which \<open>flattenInner\<close> pushes an entry for a node, and the
  entry it pushes.\<close>

definition emits :: "ComplexityItem \<Rightarrow> bool" where
  "emits item = (adjustedScore item > 0 \<and> lineTruthy item)"

definition adjusted :: "ComplexityItem \<Rightarrow> ComplexityItem" where
  "adjusted item = ComplexityItem (Some (adjustedScore item)) (line item) (inner item)"

text \<open>A flat entry read as the pair (line, netScore).\<close>

definition entryOf :: "ComplexityItem \<Rightarrow> int \<times> int" where
  "entryOf item = (lineOr0 item, scoreOr0 item)"

text \<open>
  The flattening as the specification words it, for comparison with \<open>flattenInner\<close>:
  \<open>childSum\<close> is the sum of \<open>child.score\<close> over the direct children only,
  \<open>net = node.score - childSum\<close>, an entry is emitted when \<open>net > 0\<close> and the line
  is present, and the children's entries follow the node's own.
\<close>

definition directChildSum :: "ComplexityItem \<Rightarrow> int" where
  "directChildSum item = sum_list (map scoreOr0 (innerOrEmpty item))"

fun flatten_spec :: "ComplexityItem list \<Rightarrow> (int \<times> int) list" where
  "flatten_spec [] = []"
| "flatten_spec (n # ns) =
     (if scoreOr0 n - directChildSum n > 0 \<and> line n \<noteq> None
      then [(lineOr0 n, scoreOr0 n - directChildSum n)] else [])
     @ flatten_spec (innerOrEmpty n) @ flatten_spec ns"

text \<open>Score accounting over a forest: what the emitted entries carry, what the nodes
  without an entry would have carried, and the score reported at the top level.\<close>

definition emittedSum :: "ComplexityItem list \<Rightarrow> int" where
  "emittedSum forest = sum_list (map scoreOr0 (flattenInner forest))"

definition notEmitted :: "ComplexityItem \<Rightarrow> bool" where
  "notEmitted item = (\<not> emits item)"

definition droppedSum :: "ComplexityItem list \<Rightarrow> int" where
  "droppedSum forest = sum_list (map adjustedScore (filter notEmitted (nodes forest)))"

definition totalScore :: "ComplexityItem list \<Rightarrow> int" where
  "totalScore forest = sum_list (map scoreOr0 forest)"

text \<open>A three-level tree: a root scored 15 on line 1, its child scored 5 on line 2, and
  a grandchild scored 2 on line 3.\<close>

definition nested3 :: "ComplexityItem list" where
  "nested3 =
     [ComplexityItem (Some 15) (Some 1) (Some
        [ComplexityItem (Some 5) (Some 2) (Some
           [ComplexityItem (Some 2) (Some 3) None])])]"

text \<open>The same shape with the scores 18, 12 and 7 on lines 3, 7 and 11: a function
  holding a function that holds a third.\<close>

definition nestedDeep :: "ComplexityItem list" where
  "nestedDeep =
     [ComplexityItem (Some 18) (Some 3) (Some
        [ComplexityItem (Some 12) (Some 7) (Some
           [ComplexityItem (Some 7) (Some 11) (Some [])])])]"

text \<open>A two-level tree: a root scored 15 on line 4 with one child scored 5 on line 7
  and no grandchildren.\<close>

definition nested2 :: "ComplexityItem list" where
  "nested2 =
     [ComplexityItem (Some 15) (Some 4) (Some [ComplexityItem (Some 5) (Some 7) (Some [])])]"

subsection \<open>Unfolding the folds\<close>

lemma foldl_plus2:
  "foldl (\<lambda>acc item. acc + g item + h item) (a::int) xs
     = a + sum_list (map (\<lambda>i. g i + h i) xs)"
  by (induction xs arbitrary: a) (simp_all add: add.assoc)

lemma foldl_push_concat:
  "foldl (\<lambda>acc item. (if c item then acc @ [e item] else acc) @ r item) a xs
     = a @ concat (map (\<lambda>item. (if c item then [e item] else []) @ r item) xs)"
  by (induction xs arbitrary: a) simp_all

lemma getScoreSum_sum:
  "getScoreSum items = sum_list (map (\<lambda>i. scoreOr0 i + getScoreSum (innerOrEmpty i)) items)"
  by (subst getScoreSum.simps) (simp add: foldl_plus2)

lemma getScoreSum_Nil: "getScoreSum [] = 0"
  by (subst getScoreSum_sum) simp

lemma getScoreSum_Cons:
  "getScoreSum (item # rest)
     = scoreOr0 item + getScoreSum (innerOrEmpty item) + getScoreSum rest"
proof -
  let ?F = "\<lambda>i. scoreOr0 i + getScoreSum (innerOrEmpty i)"
  have "getScoreSum (item # rest) = sum_list (map ?F (item # rest))"
    by (rule getScoreSum_sum)
  also have "\<dots> = ?F item + sum_list (map ?F rest)"
    by simp
  also have "sum_list (map ?F rest) = getScoreSum rest"
    by (rule getScoreSum_sum [symmetric])
  finally show ?thesis .
qed

lemma flattenInner_concat:
  "flattenInner items =
     concat (map (\<lambda>item. (if emits item then [adjusted item] else [])
                           @ flattenInner (innerOrEmpty item)) items)"
  unfolding emits_def adjusted_def
  by (subst flattenInner.simps) (simp add: Let_def foldl_push_concat)

lemma flattenInner_Nil: "flattenInner [] = []"
  by (subst flattenInner_concat) simp

lemma flattenInner_Cons:
  "flattenInner (item # rest) =
     (if emits item then [adjusted item] else [])
     @ flattenInner (innerOrEmpty item) @ flattenInner rest"
proof -
  let ?F = "\<lambda>item. (if emits item then [adjusted item] else [])
                      @ flattenInner (innerOrEmpty item)"
  have "flattenInner (item # rest) = concat (map ?F (item # rest))"
    by (rule flattenInner_concat)
  also have "\<dots> = ?F item @ concat (map ?F rest)"
    by simp
  also have "concat (map ?F rest) = flattenInner rest"
    by (rule flattenInner_concat [symmetric])
  finally show ?thesis by simp
qed

lemma getScoreSum_nodes: "getScoreSum forest = sum_list (map scoreOr0 (nodes forest))"
  by (induction forest rule: nodes.induct) (simp_all add: getScoreSum_Nil getScoreSum_Cons)

lemma flattenInner_nodes: "flattenInner forest = map adjusted (filter emits (nodes forest))"
  by (induction forest rule: nodes.induct) (simp_all add: flattenInner_Nil flattenInner_Cons)

lemmas flatten_eval =
  flattenInner_Nil flattenInner_Cons getScoreSum_Nil getScoreSum_Cons
  emits_def adjusted_def adjustedScore_def lineTruthy_def innerOrEmpty_def
  scoreOr0_def lineOr0_def entryOf_def directChildSum_def

subsection \<open>The direct-children rule keeps the total\<close>

text \<open>Under the rule of the specification, the net scores of all nodes of a forest add
  up to the scores at its top level.\<close>

lemma direct_children_net_total:
  "sum_list (map (\<lambda>n. scoreOr0 n - directChildSum n) (nodes forest)) = totalScore forest"
  by (induction forest rule: nodes.induct) (simp_all add: totalScore_def directChildSum_def)

section \<open>Editor types used by extension.ts\<close>

text \<open>
  The host editor's API types, with the fields the extension reads. Positions are
  0-based line and character numbers.
\<close>

record Position =
  position_line :: int
  position_character :: int

record Range =
  range_start :: Position
  range_end :: Position

text \<open>\<^verbatim>\<open>vscode.SymbolKind\<close>, in the order of the enumeration.\<close>

datatype SymbolKind =
    File | Module | Namespace | Package | Class | Method | Property | Field
  | Constructor | Enum | Interface | Function | Variable | Constant | String
  | Number | Boolean | Array | Object | Key | Null | EnumMember | Struct
  | Event | Operator | TypeParameter

datatype DocumentSymbol =
  DocumentSymbol (name: string) (kind: SymbolKind) (selectionRange: Range)
    (children: "DocumentSymbol list")

datatype DiagnosticSeverity = Error | Warning | Information | Hint

record Diagnostic =
  diagnosticRange :: Range
  message :: string
  severity :: DiagnosticSeverity
  source :: string

subsection \<open>Numbers in template literals\<close>

text \<open>A whole number interpolated into a template literal prints in decimal, with a
  leading minus sign when negative.\<close>

definition digitChar :: "nat \<Rightarrow> char" where
  "digitChar d = ''0123456789'' ! (d mod 10)"

function showNat :: "nat \<Rightarrow> string" where
  "showNat n = (if n < 10 then [digitChar n] else showNat (n div 10) @ [digitChar (n mod 10)])"
  by pat_completeness auto
termination
  by (relation "measure id") auto

declare showNat.simps [simp del]

definition showInt :: "int \<Rightarrow> string" where
  "showInt i = (if i < 0 then CHR ''-'' # showNat (nat (- i)) else showNat (nat i))"

subsection \<open>rangeToString\<close>

text \<open>
  \<^verbatim>\<open>
  function rangeToString(range: vscode.Range): string {
      return `${range.start.line},${range.start.character}-${range.end.line},${range.end.character}`;
  }\<close>
\<close>

definition rangeToString :: "Range \<Rightarrow> string" where
  "rangeToString r =
     showInt (position_line (range_start r)) @ '','' @ showInt (position_character (range_start r))
     @ ''-'' @ showInt (position_line (range_end r)) @ '','' @ showInt (position_character (range_end r))"

subsection \<open>filterFunctionSymbols\<close>

text \<open>
  \<^verbatim>\<open>
  function filterFunctionSymbols(symbols: vscode.DocumentSymbol[]): vscode.DocumentSymbol[] {
      let functions: vscode.DocumentSymbol[] = [];
      for (const symbol of symbols) {
          if ([vscode.SymbolKind.Function, vscode.SymbolKind.Method,
               vscode.SymbolKind.Constructor].includes(symbol.kind)) {
              functions.push(symbol);
          }
          if (symbol.children && symbol.children.length > 0) {
              functions = functions.concat(filterFunctionSymbols(symbol.children));
          }
      }
      return functions;
  }\<close>
  The loop is a left fold over \<open>symbols\<close> with \<open>functions\<close> as the accumulator.
\<close>

definition isFunctionKind :: "SymbolKind \<Rightarrow> bool" where
  "isFunctionKind k = (k \<in> set [Function, Method, Constructor])"

lemma size_children: "size_list size (children symbol) < size symbol"
  by (cases symbol) simp

lemma size_children_member:
  "symbol \<in> set symbols \<Longrightarrow> size_list size (children symbol) < size_list size symbols"
  using size_children[of symbol] by (induction symbols) (auto simp: less_Suc_eq)

lemma size_children_Cons [termination_simp]:
  "size_list size (children s) < Suc (size s + k)"
  using size_children[of s] by simp

function filterFunctionSymbols :: "DocumentSymbol list \<Rightarrow> DocumentSymbol list" where
  "filterFunctionSymbols symbols =
     foldl (\<lambda>functions symbol.
        let pushed = (if isFunctionKind (kind symbol) then functions @ [symbol] else functions)
        in (if children symbol \<noteq> []
            then pushed @ filterFunctionSymbols (children symbol)
            else pushed)) [] symbols"
  by pat_completeness auto
termination
  by (relation "measure (size_list size)") (simp_all add: size_children_member)

declare filterFunctionSymbols.simps [simp del]

text \<open>The declared symbols in pre-order: a symbol, then its children, then its later
  siblings.\<close>

fun symbolsPreorder :: "DocumentSymbol list \<Rightarrow> DocumentSymbol list" where
  "symbolsPreorder [] = []"
| "symbolsPreorder (s # ss) = s # symbolsPreorder (children s) @ symbolsPreorder ss"

definition startLine :: "DocumentSymbol \<Rightarrow> int" where
  "startLine s = position_line (range_start (selectionRange s))"

section \<open>The analysis run (the timer callback of processActiveFile)\<close>

subsection \<open>Severity\<close>

text \<open>
  \<^verbatim>\<open>
  let severity: vscode.DiagnosticSeverity | null = null;
  if (score > errorThreshold) {
      severity = vscode.DiagnosticSeverity.Error;
  } else if (score > warningThreshold) {
      severity = vscode.DiagnosticSeverity.Warning;
  } else if (score > 0) {
      // severity = vscode.DiagnosticSeverity.Information;
  }\<close>
  The last branch is empty in the source: its assignment is commented out.
\<close>

definition classify :: "int \<Rightarrow> int \<Rightarrow> int \<Rightarrow> DiagnosticSeverity option" where
  "classify netScore warningLimit errorLimit =
     (if netScore > errorLimit then Some Error
      else if netScore > warningLimit then Some Warning
      else if netScore > 0 then None
      else None)"

subsection \<open>One complexity item\<close>

text \<open>
  \<^verbatim>\<open>
  complexityItems.forEach(item => {
      const symbol = functionSymbols.find(
          s => s.selectionRange.start.line === (item.line || 0) - 1,
      );
      if (!symbol || item.score === undefined) return;
      const range = symbol.selectionRange;
      const score = item.score;
      currentScores.set(rangeToString(range), score);
      ... severity ...
      if (severity !== null) {
          const diagnostic = new vscode.Diagnostic(range, `Cognitive Complexity: ${score}`, severity);
          diagnostic.severity = severity;
          diagnostic.source = 'tsCognilint';
          diagnostics.push(diagnostic);
      }
  });\<close>
  The body of the loop acts on the two locals \<open>diagnostics\<close> and \<open>currentScores\<close>,
  passed and returned as a pair.
\<close>

definition findSymbol :: "DocumentSymbol list \<Rightarrow> ComplexityItem \<Rightarrow> DocumentSymbol option" where
  "findSymbol functionSymbols item =
     List.find (\<lambda>s. startLine s = lineOr0 item - 1) functionSymbols"

definition processItem ::
  "int \<Rightarrow> int \<Rightarrow> DocumentSymbol list \<Rightarrow> Diagnostic list \<times> (string \<rightharpoonup> int)
     \<Rightarrow> ComplexityItem \<Rightarrow> Diagnostic list \<times> (string \<rightharpoonup> int)" where
  "processItem warningLimit errorLimit functionSymbols acc item =
     (case acc of (diagnostics, currentScores) \<Rightarrow>
      (case findSymbol functionSymbols item of
         None \<Rightarrow> (diagnostics, currentScores)
       | Some symbol \<Rightarrow>
          (case score item of
             None \<Rightarrow> (diagnostics, currentScores)
           | Some sc \<Rightarrow>
              let range = selectionRange symbol;
                  currentScores' = currentScores(rangeToString range \<mapsto> sc)
              in (case classify sc warningLimit errorLimit of
                    None \<Rightarrow> (diagnostics, currentScores')
                  | Some sev \<Rightarrow>
                      (diagnostics @
                         [\<lparr>diagnosticRange = range,
                           message = ''Cognitive Complexity: '' @ showInt sc,
                           severity = sev,
                           source = ''tsCognilint''\<rparr>],
                       currentScores')))))"

subsection \<open>The body of the try block\<close>

text \<open>
  The two awaited services are the environment's: each either rejects (\<open>Inl\<close>, which
  also stands for an exception raised while reading what it returned) or resolves
  (\<open>Inr\<close>). \<open>getFileOutput\<close> resolves to an object whose \<open>inner\<close> may be absent;
  the symbol provider may resolve to \<open>undefined\<close>
  (\<^verbatim>\<open>symbols || []\<close>). A rejection of the first await skips the rest of the block.
\<close>

datatype error = AnalysisFailure string | SymbolDiscoveryFailure string | MalformedOutput string

record FileOutput =
  outputInner :: "ComplexityItem list option"

definition analyse ::
  "int \<Rightarrow> int \<Rightarrow> error + FileOutput \<Rightarrow> error + DocumentSymbol list option
     \<Rightarrow> error + Diagnostic list \<times> (string \<rightharpoonup> int)" where
  "analyse warningLimit errorLimit outputResult symbolsResult =
     (case outputResult of
        Inl e \<Rightarrow> Inl e
      | Inr output \<Rightarrow>
          let complexityItems =
                flattenInner (case outputInner output of None \<Rightarrow> [] | Some xs \<Rightarrow> xs)
          in (case symbolsResult of
                Inl e \<Rightarrow> Inl e
              | Inr symbols \<Rightarrow>
                  let functionSymbols =
                        filterFunctionSymbols (case symbols of None \<Rightarrow> [] | Some ss \<Rightarrow> ss)
                  in Inr (foldl (processItem warningLimit errorLimit functionSymbols)
                            ([], Map.empty) complexityItems)))"

subsection \<open>Unfolding filterFunctionSymbols and find\<close>

lemma foldl_push_guard_concat:
  "foldl (\<lambda>acc x. let p = (if c x then acc @ [e x] else acc)
                   in (if b x then p @ r x else p)) a xs
     = a @ concat (map (\<lambda>x. (if c x then [e x] else []) @ (if b x then r x else [])) xs)"
  by (induction xs arbitrary: a) (simp_all add: Let_def)

lemma filterFunctionSymbols_concat:
  "filterFunctionSymbols symbols =
     concat (map (\<lambda>s. (if isFunctionKind (kind s) then [s] else [])
                        @ (if children s \<noteq> [] then filterFunctionSymbols (children s) else []))
             symbols)"
  by (subst filterFunctionSymbols.simps) (simp add: foldl_push_guard_concat)

lemma filterFunctionSymbols_Nil: "filterFunctionSymbols [] = []"
  by (subst filterFunctionSymbols_concat) simp

lemma filterFunctionSymbols_Cons:
  "filterFunctionSymbols (s # ss) =
     (if isFunctionKind (kind s) then [s] else [])
     @ filterFunctionSymbols (children s) @ filterFunctionSymbols ss"
proof -
  let ?F = "\<lambda>s. (if isFunctionKind (kind s) then [s] else [])
                  @ (if children s \<noteq> [] then filterFunctionSymbols (children s) else [])"
  have "filterFunctionSymbols (s # ss) = concat (map ?F (s # ss))"
    by (rule filterFunctionSymbols_concat)
  also have "\<dots> = ?F s @ concat (map ?F ss)"
    by simp
  also have "concat (map ?F ss) = filterFunctionSymbols ss"
    by (rule filterFunctionSymbols_concat [symmetric])
  finally show ?thesis
    by (cases "children s = []") (simp_all add: filterFunctionSymbols_Nil)
qed

lemma filterFunctionSymbols_preorder:
  "filterFunctionSymbols symbols = filter (\<lambda>s. isFunctionKind (kind s)) (symbolsPreorder symbols)"
  by (induction symbols rule: symbolsPreorder.induct)
     (simp_all add: filterFunctionSymbols_Nil filterFunctionSymbols_Cons)

lemma find_Some_split:
  "List.find P xs = Some x \<Longrightarrow>
     \<exists>before after. xs = before @ x # after \<and> P x \<and> (\<forall>y \<in> set before. \<not> P y)"
proof (induction xs)
  case Nil
  then show ?case by simp
next
  case (Cons a xs)
  show ?case
  proof (cases "P a")
    case True
    with Cons.prems have "a = x" by simp
    with True have "a # xs = [] @ x # xs \<and> P x \<and> (\<forall>y \<in> set []. \<not> P y)" by simp
    then show ?thesis by blast
  next
    case False
    with Cons.prems have "List.find P xs = Some x" by simp
    from Cons.IH [OF this] obtain before after
      where "xs = before @ x # after" "P x" "\<forall>y \<in> set before. \<not> P y" by blast
    with False have "a # xs = (a # before) @ x # after \<and> P x \<and> (\<forall>y \<in> set (a # before). \<not> P y)"
      by simp
    then show ?thesis by blast
  qed
qed

lemma isFunctionKind_iff: "isFunctionKind k = (k = Function \<or> k = Method \<or> k = Constructor)"
  by (auto simp: isFunctionKind_def)

lemma lineOr0_Some: "line item = Some l \<Longrightarrow> lineOr0 item = l"
  by (simp add: lineOr0_def)

subsection \<open>What the loop over the complexity items maintains\<close>

text \<open>Every diagnostic collected so far has its range string among the keys of the
  scores collected so far.\<close>

definition covered :: "Diagnostic list \<times> (string \<rightharpoonup> int) \<Rightarrow> bool" where
  "covered acc = (\<forall>d \<in> set (fst acc). rangeToString (diagnosticRange d) \<in> dom (snd acc))"

lemma processItem_unmatched:
  "findSymbol fs item = None \<or> score item = None \<Longrightarrow> processItem w e fs acc item = acc"
  by (cases acc) (auto simp: processItem_def split: option.splits)

lemma processItem_matched:
  assumes "findSymbol fs item = Some symbol" "score item = Some sc"
  shows "snd (processItem w e fs (ds, cs) item) = cs(rangeToString (selectionRange symbol) \<mapsto> sc)"
    and "classify sc w e = None \<Longrightarrow> fst (processItem w e fs (ds, cs) item) = ds"
    and "classify sc w e = Some sev \<Longrightarrow>
           fst (processItem w e fs (ds, cs) item)
             = ds @ [\<lparr>diagnosticRange = selectionRange symbol,
                       message = ''Cognitive Complexity: '' @ showInt sc,
                       severity = sev, source = ''tsCognilint''\<rparr>]"
  using assms by (simp_all add: processItem_def Let_def split: option.splits)

lemma processItem_dom: "dom (snd acc) \<subseteq> dom (snd (processItem w e fs acc item))"
  by (cases acc) (auto simp: processItem_def Let_def split: option.splits)

lemma processItem_covered: "covered acc \<Longrightarrow> covered (processItem w e fs acc item)"
  by (cases acc) (auto simp: covered_def processItem_def Let_def split: option.splits)

lemma foldl_processItem_dom: "dom (snd acc) \<subseteq> dom (snd (foldl (processItem w e fs) acc items))"
proof (induction items arbitrary: acc)
  case Nil
  show ?case by simp
next
  case (Cons item items)
  have "dom (snd acc) \<subseteq> dom (snd (processItem w e fs acc item))"
    by (rule processItem_dom)
  also have "\<dots> \<subseteq> dom (snd (foldl (processItem w e fs) (processItem w e fs acc item) items))"
    by (rule Cons.IH)
  finally show ?case by simp
qed

lemma foldl_processItem_covered:
  "covered acc \<Longrightarrow> covered (foldl (processItem w e fs) acc items)"
  by (induction items arbitrary: acc) (simp_all add: processItem_covered)

lemma foldl_processItem_keys:
  assumes "item \<in> set items" "findSymbol fs item = Some symbol" "score item = Some sc"
  shows "rangeToString (selectionRange symbol) \<in> dom (snd (foldl (processItem w e fs) acc items))"
  using assms(1)
proof (induction items arbitrary: acc)
  case Nil
  then show ?case by simp
next
  case (Cons x items)
  show ?case
  proof (cases "x = item")
    case True
    have "rangeToString (selectionRange symbol) \<in> dom (snd (processItem w e fs acc item))"
      using processItem_matched(1) [OF assms(2,3), of w e "fst acc" "snd acc"] by simp
    with foldl_processItem_dom [of "processItem w e fs acc item" w e fs items] True
    show ?thesis by auto
  next
    case False
    with Cons.prems have "item \<in> set items" by simp
    from Cons.IH [OF this] show ?thesis by simp
  qed
qed

lemma flattenInner_score: "item \<in> set (flattenInner forest) \<Longrightarrow> score item = Some (scoreOr0 item)"
  by (auto simp: flattenInner_nodes adjusted_def scoreOr0_def)

section \<open>The extension's state and its event handlers\<close>

text \<open>
  The module-level state of extension.ts is the diagnostic collection and the two maps
  \<^verbatim>\<open>complexityScores\<close> and \<^verbatim>\<open>debounceTimers\<close>, all keyed by the document's
  URI. The model adds what the JavaScript runtime holds on the extension's behalf: the
  armed timeouts, each with the document and configuration its callback closed over; the
  callbacks that have started and are suspended at an \<^verbatim>\<open>await\<close>; and what was
  written to \<^verbatim>\<open>console.error\<close>. Time is abstracted: an armed timeout may fire at
  any later step, a cleared one never does.
\<close>

record TextDocument =
  uri :: string
  languageId :: string
  fileName :: string

text \<open>The snapshot returned by \<^verbatim>\<open>vscode.workspace.getConfiguration('tsCognilint')\<close>,
  with the defaults already applied.\<close>

record Config =
  enabled :: bool
  warningThreshold :: int
  errorThreshold :: int

record ExtensionState =
  diagnosticCollection :: "string \<rightharpoonup> Diagnostic list"
  complexityScores :: "string \<rightharpoonup> (string \<rightharpoonup> int)"
  debounceTimers :: "string \<rightharpoonup> nat"
  timeouts :: "(nat \<times> TextDocument \<times> Config) list"
  nextTimeout :: nat
  running :: "(nat \<times> TextDocument \<times> Config) list"
  consoleErrors :: "error list"

definition initialState :: ExtensionState where
  "initialState =
     \<lparr>diagnosticCollection = Map.empty, complexityScores = Map.empty,
      debounceTimers = Map.empty, timeouts = [], nextTimeout = 0, running = [],
      consoleErrors = []\<rparr>"

text \<open>
  \<^verbatim>\<open>
  function isSupportedLanguage(document: vscode.TextDocument): boolean {
      switch (document.languageId) {
          case "typescript": case "typescriptreact":
          case "javascript": case "javascriptreact":
              return true;
          default:
              return false;
      }
  }\<close>
\<close>

definition isSupportedLanguage :: "TextDocument \<Rightarrow> bool" where
  "isSupportedLanguage document =
     (if languageId document = ''typescript'' then True
      else if languageId document = ''typescriptreact'' then True
      else if languageId document = ''javascript'' then True
      else if languageId document = ''javascriptreact'' then True
      else False)"

text \<open>\<^verbatim>\<open>setTimeout\<close> arms a timeout under a fresh handle and returns the handle;
  \<^verbatim>\<open>clearTimeout\<close> disarms the timeout with the given handle, if it is still armed.\<close>

definition setTimeout :: "ExtensionState \<Rightarrow> TextDocument \<Rightarrow> Config \<Rightarrow> nat \<times> ExtensionState" where
  "setTimeout st document config =
     (nextTimeout st,
      st\<lparr>timeouts := timeouts st @ [(nextTimeout st, document, config)],
         nextTimeout := Suc (nextTimeout st)\<rparr>)"

definition clearTimeout :: "ExtensionState \<Rightarrow> nat \<Rightarrow> ExtensionState" where
  "clearTimeout st h = st\<lparr>timeouts := filter (\<lambda>t. fst t \<noteq> h) (timeouts st)\<rparr>"

text \<open>The two deletions that the unsupported branch, the disabled branch, the close
  handler and the catch block each perform.\<close>

definition deleteDiagnosticsAndScores :: "ExtensionState \<Rightarrow> string \<Rightarrow> ExtensionState" where
  "deleteDiagnosticsAndScores st u =
     st\<lparr>diagnosticCollection := (diagnosticCollection st)(u := None),
        complexityScores := (complexityScores st)(u := None)\<rparr>"

subsection \<open>processActiveFile, up to arming the timer\<close>

text \<open>
  \<^verbatim>\<open>
  async function processActiveFile(document: vscode.TextDocument | undefined) {
      if (!document || !isSupportedLanguage(document)) {
          if (document) {
              diagnosticCollection.delete(document.uri);
              complexityScores.delete(document.uri.toString());
          }
          return;
      }
      const config = vscode.workspace.getConfiguration('tsCognilint');
      const docUriString = document.uri.toString();
      if (!config.get<boolean>('enabled', true)) {
          diagnosticCollection.delete(document.uri);
          complexityScores.delete(docUriString);
          return;
      }
      if (debounceTimers.has(docUriString)) {
          clearTimeout(debounceTimers.get(docUriString)!);
      }
      debounceTimers.set(docUriString, setTimeout(async () => { ... }, 300));
  }\<close>
  The configuration read by the call is a parameter of the model.
\<close>

definition processActiveFile ::
  "ExtensionState \<Rightarrow> TextDocument option \<Rightarrow> Config \<Rightarrow> ExtensionState" where
  "processActiveFile st document config =
     (case document of
        None \<Rightarrow> st
      | Some doc \<Rightarrow>
          if \<not> isSupportedLanguage doc then deleteDiagnosticsAndScores st (uri doc)
          else if \<not> enabled config then deleteDiagnosticsAndScores st (uri doc)
          else
            let st1 = (case debounceTimers st (uri doc) of
                         None \<Rightarrow> st
                       | Some h \<Rightarrow> clearTimeout st h);
                armed = setTimeout st1 doc config
            in (snd armed)\<lparr>debounceTimers := (debounceTimers (snd armed))(uri doc \<mapsto> fst armed)\<rparr>)"

subsection \<open>The close handler\<close>

text \<open>
  \<^verbatim>\<open>
  vscode.workspace.onDidCloseTextDocument(doc => {
      diagnosticCollection.delete(doc.uri);
      complexityScores.delete(doc.uri.toString());
      const timer = debounceTimers.get(doc.uri.toString());
      if (timer) {
          clearTimeout(timer);
          debounceTimers.delete(doc.uri.toString());
      }
  })\<close>
\<close>

definition onDidCloseTextDocument :: "ExtensionState \<Rightarrow> TextDocument \<Rightarrow> ExtensionState" where
  "onDidCloseTextDocument st doc =
     (let st1 = deleteDiagnosticsAndScores st (uri doc)
      in (case debounceTimers st1 (uri doc) of
            None \<Rightarrow> st1
          | Some h \<Rightarrow>
              (clearTimeout st1 h)\<lparr>debounceTimers := (debounceTimers st1)(uri doc := None)\<rparr>))"

subsection \<open>The timer callback\<close>

text \<open>
  \<^verbatim>\<open>
  setTimeout(async () => {
      debounceTimers.delete(docUriString);
      const warningThreshold = config.get<number>('warningThreshold', 10);
      const errorThreshold = config.get<number>('errorThreshold', 20);
      const diagnostics = []; const currentScores = new Map();
      try {
          const output = await getFileOutput(document.fileName);
          ...
          complexityScores.set(docUriString, currentScores);
          diagnosticCollection.set(document.uri, diagnostics);
      } catch (error) {
          console.error("tsCognilint: Error processing cognitive complexity:", error);
          complexityScores.delete(docUriString);
          diagnosticCollection.delete(document.uri);
      }
  }, 300)\<close>
  The callback touches the module state at two moments only: when it starts (it removes
  its entry of \<^verbatim>\<open>debounceTimers\<close> and then waits for the services), and when it
  ends (it stores both results, or deletes both in the catch block). Everything in
  between works on locals. The model therefore has one step for the start and one for
  the end; other events may come in between.
\<close>

definition timerFires :: "ExtensionState \<Rightarrow> nat \<Rightarrow> ExtensionState" where
  "timerFires st h =
     (case List.find (\<lambda>x. fst x = h) (timeouts st) of
        None \<Rightarrow> st
      | Some t \<Rightarrow>
          st\<lparr>timeouts := filter (\<lambda>x. fst x \<noteq> h) (timeouts st),
             debounceTimers := (debounceTimers st)(uri (fst (snd t)) := None),
             running := running st @ [t]\<rparr>)"

definition finishRun ::
  "ExtensionState \<Rightarrow> TextDocument \<Rightarrow> Config \<Rightarrow> error + FileOutput
     \<Rightarrow> error + DocumentSymbol list option \<Rightarrow> ExtensionState" where
  "finishRun st document config outputResult symbolsResult =
     (case analyse (warningThreshold config) (errorThreshold config) outputResult symbolsResult of
        Inr result \<Rightarrow>
          st\<lparr>complexityScores := (complexityScores st)(uri document \<mapsto> snd result),
             diagnosticCollection := (diagnosticCollection st)(uri document \<mapsto> fst result)\<rparr>
      | Inl e \<Rightarrow>
          deleteDiagnosticsAndScores (st\<lparr>consoleErrors := consoleErrors st @ [e]\<rparr>) (uri document))"

definition runCompletes ::
  "ExtensionState \<Rightarrow> nat \<Rightarrow> error + FileOutput \<Rightarrow> error + DocumentSymbol list option
     \<Rightarrow> ExtensionState" where
  "runCompletes st h outputResult symbolsResult =
     (case List.find (\<lambda>x. fst x = h) (running st) of
        None \<Rightarrow> st
      | Some t \<Rightarrow>
          finishRun (st\<lparr>running := filter (\<lambda>x. fst x \<noteq> h) (running st)\<rparr>)
            (fst (snd t)) (snd (snd t)) outputResult symbolsResult)"

subsection \<open>Events\<close>

text \<open>
  A qualifying event (text change, active editor change, configuration change for a
  visible editor, activation with a visible editor) is a call of
  \<open>processActiveFile\<close> with the configuration current at that moment.
\<close>

datatype Event =
    Qualifying "TextDocument option" Config
  | DidCloseTextDocument TextDocument
  | TimerFires nat
  | RunCompletes nat "error + FileOutput" "error + DocumentSymbol list option"

fun step :: "ExtensionState \<Rightarrow> Event \<Rightarrow> ExtensionState" where
  "step st (Qualifying document config) = processActiveFile st document config"
| "step st (DidCloseTextDocument doc) = onDidCloseTextDocument st doc"
| "step st (TimerFires h) = timerFires st h"
| "step st (RunCompletes h outputResult symbolsResult) = runCompletes st h outputResult symbolsResult"

definition run :: "ExtensionState \<Rightarrow> Event list \<Rightarrow> ExtensionState" where
  "run st events = foldl step st events"

text \<open>The armed timeouts and the started, unfinished runs of one document.\<close>

definition timersFor :: "ExtensionState \<Rightarrow> string \<Rightarrow> (nat \<times> TextDocument \<times> Config) list" where
  "timersFor st u = filter (\<lambda>t. uri (fst (snd t)) = u) (timeouts st)"

definition runsFor :: "ExtensionState \<Rightarrow> string \<Rightarrow> (nat \<times> TextDocument \<times> Config) list" where
  "runsFor st u = filter (\<lambda>t. uri (fst (snd t)) = u) (running st)"

text \<open>Every armed timeout is the one recorded for its document, and handles are not
  reused.\<close>

definition timersTracked :: "ExtensionState \<Rightarrow> bool" where
  "timersTracked st =
     ((\<forall>t \<in> set (timeouts st).
         debounceTimers st (uri (fst (snd t))) = Some (fst t) \<and> fst t < nextTimeout st)
      \<and> distinct (map fst (timeouts st)))"




subsection \<open>Example inputs\<close>

definition nameRange :: "int \<Rightarrow> Range" where
  "nameRange l =
     \<lparr>range_start = \<lparr>position_line = l, position_character = 4\<rparr>,
      range_end = \<lparr>position_line = l, position_character = 9\<rparr>\<rparr>"

text \<open>A class on line 0 holding a method on line 1, a function also on line 1, and a
  variable on line 5 holding a function on line 5 (0-based lines).\<close>

definition methodM :: DocumentSymbol where
  "methodM = DocumentSymbol ''m'' Method (nameRange 1) []"

definition functionF :: DocumentSymbol where
  "functionF = DocumentSymbol ''f'' Function (nameRange 1) []"

definition functionG :: DocumentSymbol where
  "functionG = DocumentSymbol ''g'' Function (nameRange 5) []"

definition exampleSymbols :: "DocumentSymbol list" where
  "exampleSymbols =
     [DocumentSymbol ''C'' Class (nameRange 0) [methodM],
      functionF,
      DocumentSymbol ''v'' Variable (nameRange 5) [functionG]]"

definition itemAtLine :: "int \<Rightarrow> int \<Rightarrow> ComplexityItem" where
  "itemAtLine l s = ComplexityItem (Some s) (Some l) None"

text \<open>An analyzer output with a scope scored 25 on line 2 and one scored 4 on line 6
  (1-based lines).\<close>

definition exampleOutput :: FileOutput where
  "exampleOutput = \<lparr>outputInner = Some [itemAtLine 2 25, itemAtLine 6 4]\<rparr>"

definition docA :: TextDocument where
  "docA = \<lparr>uri = ''file:///a.ts'', languageId = ''typescript'', fileName = ''/a.ts''\<rparr>"

text \<open>The same document after its language mode was switched to plain text.\<close>

definition docAPlain :: TextDocument where
  "docAPlain = \<lparr>uri = ''file:///a.ts'', languageId = ''plaintext'', fileName = ''/a.ts''\<rparr>"

definition configOn :: Config where
  "configOn = \<lparr>enabled = True, warningThreshold = 10, errorThreshold = 20\<rparr>"

definition configOff :: Config where
  "configOff = \<lparr>enabled = False, warningThreshold = 10, errorThreshold = 20\<rparr>"

definition configStrict :: Config where
  "configStrict = \<lparr>enabled = True, warningThreshold = 5, errorThreshold = 8\<rparr>"

text \<open>The document is analysed and its results are published; a second event arms a new
  timer. In \<open>publishedThenRunning\<close> that timer has fired as well, so a second run is
  waiting for the services.\<close>

definition publishedAndArmed :: "Event list" where
  "publishedAndArmed =
     [Qualifying (Some docA) configOn, TimerFires 0,
      RunCompletes 0 (Inr exampleOutput) (Inr (Some exampleSymbols)),
      Qualifying (Some docA) configOn]"

definition publishedThenRunning :: "Event list" where
  "publishedThenRunning = publishedAndArmed @ [TimerFires 1]"

definition publishedState :: ExtensionState where
  "publishedState =
     \<lparr>diagnosticCollection = [''file:///a.ts'' \<mapsto>
          [\<lparr>diagnosticRange = nameRange 1, message = ''Cognitive Complexity: 25'',
               severity = Error, source = ''tsCognilint''\<rparr>]],
      complexityScores = [''file:///a.ts'' \<mapsto> [''1,4-1,9'' \<mapsto> 25, ''5,4-5,9'' \<mapsto> 4]],
      debounceTimers = Map.empty, timeouts = [], nextTimeout = 2,
      running = [(1, docA, configOn)], consoleErrors = []\<rparr>"





subsection \<open>The timer bookkeeping is an invariant\<close>

lemma timersTracked_initial: "timersTracked initialState"
  by (simp add: timersTracked_def initialState_def)

lemma timersTracked_delete:
  "timersTracked st \<Longrightarrow> timersTracked (deleteDiagnosticsAndScores st u)"
  by (simp add: timersTracked_def deleteDiagnosticsAndScores_def)

lemma timersTracked_processActiveFile:
  assumes "timersTracked st"
  shows "timersTracked (processActiveFile st document config)"
proof (cases document)
  case None
  with assms show ?thesis by (simp add: processActiveFile_def)
next
  case (Some doc)
  show ?thesis
  proof (cases "isSupportedLanguage doc \<and> enabled config")
    case False
    with Some assms show ?thesis
      by (auto simp: processActiveFile_def timersTracked_delete)
  next
    case True
    show ?thesis
    proof (cases "debounceTimers st (uri doc)")
      case None
      with True Some assms show ?thesis
        by (auto simp: processActiveFile_def timersTracked_def setTimeout_def less_Suc_eq)
    next
      case (Some h)
      with True \<open>document = Some doc\<close> assms show ?thesis
        by (auto simp: processActiveFile_def timersTracked_def setTimeout_def clearTimeout_def
            less_Suc_eq distinct_map_filter)
    qed
  qed
qed

lemma timersTracked_close:
  assumes "timersTracked st"
  shows "timersTracked (onDidCloseTextDocument st doc)"
  using assms
  by (auto simp: onDidCloseTextDocument_def timersTracked_def deleteDiagnosticsAndScores_def
      clearTimeout_def Let_def distinct_map_filter split: option.splits)

lemma timersTracked_timerFires:
  assumes "timersTracked st"
  shows "timersTracked (timerFires st h)"
proof (cases "List.find (\<lambda>x. fst x = h) (timeouts st)")
  case None
  with assms show ?thesis by (simp add: timerFires_def)
next
  case (Some t)
  then have t: "t \<in> set (timeouts st)" "fst t = h"
    by (auto simp: find_Some_iff)
  have same: "fst x = h"
    if "x \<in> set (timeouts st)" "uri (fst (snd x)) = uri (fst (snd t))" for x
  proof -
    have "debounceTimers st (uri (fst (snd x))) = Some (fst x)"
      using assms that(1) by (simp add: timersTracked_def)
    moreover have "debounceTimers st (uri (fst (snd t))) = Some (fst t)"
      using assms t(1) by (simp add: timersTracked_def)
    ultimately show ?thesis
      using that(2) t(2) by simp
  qed
  have "debounceTimers st (uri (fst (snd x))) = Some (fst x) \<and> fst x < nextTimeout st"
    if "x \<in> set (timeouts st)" for x
    using assms that by (simp add: timersTracked_def)
  with same assms Some show ?thesis
    by (auto simp: timerFires_def timersTracked_def distinct_map_filter)
qed

lemma finishRun_timers:
  "timeouts (finishRun st d c outputResult symbolsResult) = timeouts st"
  "debounceTimers (finishRun st d c outputResult symbolsResult) = debounceTimers st"
  "nextTimeout (finishRun st d c outputResult symbolsResult) = nextTimeout st"
  "running (finishRun st d c outputResult symbolsResult) = running st"
  by (simp_all add: finishRun_def deleteDiagnosticsAndScores_def split: sum.splits)

lemma timersTracked_runCompletes:
  assumes "timersTracked st"
  shows "timersTracked (runCompletes st h outputResult symbolsResult)"
  using assms
  by (auto simp: runCompletes_def timersTracked_def finishRun_timers split: option.splits)

lemma timersTracked_step: "timersTracked st \<Longrightarrow> timersTracked (step st ev)"
  by (cases ev)
     (simp_all add: timersTracked_processActiveFile timersTracked_close
        timersTracked_timerFires timersTracked_runCompletes)

lemma timersTracked_run: "timersTracked st \<Longrightarrow> timersTracked (run st events)"
  unfolding run_def by (induction events arbitrary: st) (simp_all add: timersTracked_step)

lemma same_key_short:
  "distinct (map f xs) \<Longrightarrow> (\<And>x. x \<in> set xs \<Longrightarrow> f x = c) \<Longrightarrow> length xs \<le> 1"
  by (cases xs; cases "tl xs") auto

lemma timersFor_short:
  assumes "timersTracked st"
  shows "length (timersFor st u) \<le> 1"
proof (rule same_key_short [where f = fst and c = "the (debounceTimers st u)"])
  show "distinct (map fst (timersFor st u))"
    using assms by (simp add: timersTracked_def timersFor_def distinct_map_filter)
  show "fst x = the (debounceTimers st u)" if "x \<in> set (timersFor st u)" for x
    using assms that by (auto simp: timersTracked_def timersFor_def)
qed


lemma timersFor_none:
  "timersTracked st \<Longrightarrow> debounceTimers st u = None \<Longrightarrow> timersFor st u = []"
  by (auto simp: timersTracked_def timersFor_def filter_empty_conv)

lemma timersFor_cleared:
  assumes "timersTracked st" "debounceTimers st u = Some h"
  shows "filter (\<lambda>t. uri (fst (snd t)) = u) (filter (\<lambda>t. fst t \<noteq> h) (timeouts st)) = []"
  using assms by (auto simp: timersTracked_def filter_empty_conv)

lemma processActiveFile_arms_one:
  assumes "timersTracked st" "isSupportedLanguage doc" "enabled c"
  shows "timersFor (processActiveFile st (Some doc) c) (uri doc) = [(nextTimeout st, doc, c)]"
    and "nextTimeout (processActiveFile st (Some doc) c) = Suc (nextTimeout st)"
    and "running (processActiveFile st (Some doc) c) = running st"
proof -
  show "timersFor (processActiveFile st (Some doc) c) (uri doc) = [(nextTimeout st, doc, c)]"
  proof (cases "debounceTimers st (uri doc)")
    case None
    with assms timersFor_none [OF assms(1) None] show ?thesis
      by (simp add: processActiveFile_def setTimeout_def timersFor_def)
  next
    case (Some h)
    with assms timersFor_cleared [OF assms(1) Some] show ?thesis
      by (simp add: processActiveFile_def setTimeout_def clearTimeout_def timersFor_def)
  qed
  show "nextTimeout (processActiveFile st (Some doc) c) = Suc (nextTimeout st)"
    using assms
    by (simp add: processActiveFile_def setTimeout_def clearTimeout_def split: option.splits)
  show "running (processActiveFile st (Some doc) c) = running st"
    using assms
    by (simp add: processActiveFile_def setTimeout_def clearTimeout_def split: option.splits)
qed

lemma run_snoc: "run st (events @ [ev]) = step (run st events) ev"
  by (simp add: run_def)

lemma burst_arms_one:
  assumes "timersTracked st" "isSupportedLanguage doc" "\<forall>c \<in> set configs. enabled c"
  shows "nextTimeout (run st (map (Qualifying (Some doc)) configs)) = nextTimeout st + length configs
    \<and> running (run st (map (Qualifying (Some doc)) configs)) = running st
    \<and> (configs \<noteq> [] \<longrightarrow>
         timersFor (run st (map (Qualifying (Some doc)) configs)) (uri doc)
           = [(nextTimeout st + length configs - 1, doc, last configs)])"
  using assms(3)
proof (induction configs rule: rev_induct)
  case Nil
  show ?case by (simp add: run_def)
next
  case (snoc c cs)
  let ?st = "run st (map (Qualifying (Some doc)) cs)"
  have tracked: "timersTracked ?st"
    using assms(1) by (rule timersTracked_run)
  have c: "enabled c" and IH: "nextTimeout ?st = nextTimeout st + length cs" "running ?st = running st"
    using snoc by simp_all
  have "run st (map (Qualifying (Some doc)) (cs @ [c])) = processActiveFile ?st (Some doc) c"
    by (simp add: run_snoc)
  with processActiveFile_arms_one [OF tracked assms(2) c] IH show ?case
    by simp
qed

lemma find_distinct_key:
  "distinct (map f xs) \<Longrightarrow> t \<in> set xs \<Longrightarrow> List.find (\<lambda>x. f x = f t) xs = Some t"
  by (induction xs) (auto simp: rev_image_eqI)

lemma timerFires_starts_run:
  assumes "timersTracked st" "timersFor st u = [t]" "fst t = h"
  shows "runsFor (timerFires st h) u = runsFor st u @ [t]"
    and "timersFor (timerFires st h) u = []"
    and "running (timerFires st h) = running st @ [t]"
proof -
  have mem: "t \<in> set (timersFor st u)"
    using assms(2) by simp
  then have t: "t \<in> set (timeouts st)" "uri (fst (snd t)) = u"
    by (simp_all add: timersFor_def)
  have "List.find (\<lambda>x. fst x = fst t) (timeouts st) = Some t"
    using assms(1) t(1) by (intro find_distinct_key) (simp add: timersTracked_def)
  then have found: "List.find (\<lambda>x. fst x = h) (timeouts st) = Some t"
    using assms(3) by simp
  show "running (timerFires st h) = running st @ [t]"
    using found by (simp add: timerFires_def)
  show "runsFor (timerFires st h) u = runsFor st u @ [t]"
    using found t(2) by (simp add: timerFires_def runsFor_def)
  have "timersFor (timerFires st h) u = filter (\<lambda>x. fst x \<noteq> h) (timersFor st u)"
    using found by (auto simp: timerFires_def timersFor_def intro: filter_cong)
  then show "timersFor (timerFires st h) u = []"
    using assms(2,3) by simp
qed


subsection \<open>A document with nothing held stays so until its next qualifying event\<close>










subsection \<open>Evaluating the examples\<close>

lemma showNat_digit: "n < 10 \<Longrightarrow> showNat n = [digitChar n]"
  by (subst showNat.simps) simp

lemma showNat_more: "\<not> n < 10 \<Longrightarrow> showNat n = showNat (n div 10) @ [digitChar (n mod 10)]"
  by (subst showNat.simps) simp

lemmas show_eval = showNat_digit showNat_more showInt_def digitChar_def rangeToString_def

lemmas symbols_eval =
  filterFunctionSymbols_Nil filterFunctionSymbols_Cons isFunctionKind_def
  exampleSymbols_def methodM_def functionF_def functionG_def nameRange_def
  findSymbol_def startLine_def itemAtLine_def lineOr0_def

lemmas state_eval =
  run_def initialState_def processActiveFile_def isSupportedLanguage_def
  deleteDiagnosticsAndScores_def setTimeout_def clearTimeout_def timerFires_def
  runCompletes_def finishRun_def onDidCloseTextDocument_def timersFor_def runsFor_def
  docA_def docAPlain_def configOn_def configOff_def configStrict_def

lemma filterFunctionSymbols_example:
  "filterFunctionSymbols exampleSymbols = [methodM, functionF, functionG]"
  by (simp add: symbols_eval)

lemma analyse_example:
  "analyse 10 20 (Inr exampleOutput) (Inr (Some exampleSymbols))
     = Inr ([\<lparr>diagnosticRange = nameRange 1, message = ''Cognitive Complexity: 25'',
               severity = Error, source = ''tsCognilint''\<rparr>],
            [''1,4-1,9'' \<mapsto> 25, ''5,4-5,9'' \<mapsto> 4])"
  by (simp add: analyse_def exampleOutput_def flatten_eval symbols_eval processItem_def
      classify_def show_eval)


lemma publishedThenRunning_state: "run initialState publishedThenRunning = publishedState"
  by (simp add: publishedThenRunning_def publishedAndArmed_def publishedState_def state_eval
      analyse_example)





section \<open>The claims\<close>

subsection \<open>ScoreAggregator\<close>

text \<open>
  C1. The claim: a node's net score is its score minus the sum of the scores of its direct
  children only, one level deep. \<open>flattenInner\<close> subtracts \<open>getScoreSum\<close> of the
  children at every level, the child's own descendants from the child included, so it
  reads each score as already holding its descendants'; \<open>getScoreSum\<close> nevertheless
  adds every descendant's score on top of the child's. A scope two or more levels down is
  therefore subtracted more than once. On the tree 15 / 5 / 2 the root keeps 8 where the
  direct-children rule gives 10. On the tree 18 / 12 / 7 the outer function's net is
  18 - (12 + 7) = -1, so it gets no entry at all, where the rule gives it 6.
\<close>

theorem flattenInner_subtracts_descendants_twice:
  "map entryOf (flattenInner nested3) = [(1, 8), (2, 3), (3, 2)]
   \<and> flatten_spec nested3 = [(1, 10), (2, 3), (3, 2)]
   \<and> map entryOf (flattenInner nestedDeep) = [(7, 5), (11, 7)]
   \<and> flatten_spec nestedDeep = [(3, 6), (7, 5), (11, 7)]"
  by (simp add: nested3_def nestedDeep_def flatten_eval)

text \<open>
  C2. The claim: the net scores of the emitted entries and of the dropped nodes add up to
  the total score of the tree. The two-level example of the claim comes out as stated:
  root 15 with one child 5 gives the entries (root line, 10) and (child line, 5). With a
  grandchild the sum falls short, for the reason given under C1: on the tree 15 / 5 / 2
  the entries carry 8 + 3 + 2 = 13 and nothing is dropped, against a total of 15; on the
  tree 18 / 12 / 7 the entries carry 5 + 7 = 12 and the dropped outer function -1,
  against a total of 18.
\<close>

theorem flattenInner_loses_score:
  "map entryOf (flattenInner nested2) = [(4, 10), (7, 5)]
   \<and> emittedSum nested2 + droppedSum nested2 = 15 \<and> totalScore nested2 = 15
   \<and> emittedSum nested3 = 13 \<and> droppedSum nested3 = 0 \<and> totalScore nested3 = 15
   \<and> emittedSum nestedDeep = 12 \<and> droppedSum nestedDeep = - 1 \<and> totalScore nestedDeep = 18"
  by (simp add: nested2_def nested3_def nestedDeep_def emittedSum_def droppedSum_def
      totalScore_def notEmitted_def flatten_eval)

subsection \<open>SymbolMatcher\<close>

text \<open>
  C3. \<open>filterFunctionSymbols\<close> returns the declared symbols in pre-order (parent before
  children), keeping exactly the kinds function, method and constructor; the children of
  a symbol of any other kind are still scanned. For a flat entry on (1-based) line \<open>l\<close>
  the matched symbol is the first of that list whose 0-based selection-range start line
  is \<open>l - 1\<close>: everything before it in the list starts on another line. When no symbol
  of the list starts on line \<open>l - 1\<close>, the entry leaves the collected diagnostics and
  scores as they were; the loop body has no other outcome.
\<close>

theorem symbol_match_first_preorder:
  "filterFunctionSymbols symbols = filter (\<lambda>s. isFunctionKind (kind s)) (symbolsPreorder symbols)
   \<and> isFunctionKind k = (k = Function \<or> k = Method \<or> k = Constructor)
   \<and> (line item = Some l \<longrightarrow>
       (case findSymbol (filterFunctionSymbols symbols) item of
          None \<Rightarrow>
            (\<forall>s \<in> set (symbolsPreorder symbols). isFunctionKind (kind s) \<longrightarrow> startLine s \<noteq> l - 1)
            \<and> processItem warningLimit errorLimit (filterFunctionSymbols symbols) acc item = acc
        | Some symbol \<Rightarrow>
            (\<exists>before after.
               filter (\<lambda>s. isFunctionKind (kind s)) (symbolsPreorder symbols) = before @ symbol # after
               \<and> startLine symbol = l - 1
               \<and> (\<forall>s \<in> set before. startLine s \<noteq> l - 1))))"
proof -
  let ?fs = "filter (\<lambda>s. isFunctionKind (kind s)) (symbolsPreorder symbols)"
  have pre: "filterFunctionSymbols symbols = ?fs"
    by (rule filterFunctionSymbols_preorder)
  have "case findSymbol ?fs item of
          None \<Rightarrow>
            (\<forall>s \<in> set (symbolsPreorder symbols). isFunctionKind (kind s) \<longrightarrow> startLine s \<noteq> l - 1)
            \<and> processItem warningLimit errorLimit ?fs acc item = acc
        | Some symbol \<Rightarrow>
            (\<exists>before after. ?fs = before @ symbol # after
               \<and> startLine symbol = l - 1
               \<and> (\<forall>s \<in> set before. startLine s \<noteq> l - 1))"
    if l: "line item = Some l"
  proof (cases "findSymbol ?fs item")
    case None
    then have "\<forall>s \<in> set ?fs. startLine s \<noteq> l - 1"
      using l by (auto simp: findSymbol_def find_None_iff lineOr0_Some)
    moreover have "processItem warningLimit errorLimit ?fs acc item = acc"
      using None by (cases acc) (simp add: processItem_def)
    ultimately show ?thesis
      using None by simp
  next
    case (Some symbol)
    then have "List.find (\<lambda>s. startLine s = l - 1) ?fs = Some symbol"
      using l by (simp add: findSymbol_def lineOr0_Some)
    from find_Some_split [OF this] show ?thesis
      using Some by simp
  qed
  then show ?thesis
    unfolding pre using isFunctionKind_iff [of k] by blast
qed

text \<open>Method \<open>m\<close> and function \<open>f\<close> both start on line 1; \<open>m\<close> comes first in
  pre-order and is matched by an entry on line 2. Function \<open>g\<close> is found below the
  excluded variable \<open>v\<close>. No symbol starts on line 8, so an entry on line 9 is dropped.\<close>

theorem symbol_match_first_preorder_witness:
  "filterFunctionSymbols exampleSymbols = [methodM, functionF, functionG]
   \<and> findSymbol (filterFunctionSymbols exampleSymbols) (itemAtLine 2 25) = Some methodM
   \<and> findSymbol (filterFunctionSymbols exampleSymbols) (itemAtLine 6 4) = Some functionG
   \<and> findSymbol (filterFunctionSymbols exampleSymbols) (itemAtLine 9 30) = None
   \<and> processItem 10 20 (filterFunctionSymbols exampleSymbols) ([], Map.empty) (itemAtLine 9 30)
       = ([], Map.empty)"
  using symbol_match_first_preorder [where symbols = exampleSymbols and item = "itemAtLine 2 25"
      and l = 2 and k = Method]
    symbol_match_first_preorder [where symbols = exampleSymbols and item = "itemAtLine 9 30"
      and l = 9 and k = Class and warningLimit = 10 and errorLimit = 20
      and acc = "([], Map.empty)"]
  by (simp add: symbols_eval processItem_def)

subsection \<open>Classifier\<close>

text \<open>
  C4. With warning threshold 10 and error threshold 20 the scores 10, 11, 20 and 21 are
  classified as no severity, Warning, Warning and Error. The error test comes first: a
  score above the error threshold is an Error whatever the warning threshold is; failing
  that, a score above the warning threshold is a Warning; failing both, there is no
  severity, and then no diagnostic is pushed for a matched entry, positive score or not.
  Whenever the warning threshold does not exceed the error threshold, as with 10 and 20,
  that is every score at or below the warning threshold.
\<close>

theorem classify_order_and_boundaries:
  "classify 10 10 20 = None \<and> classify 11 10 20 = Some Warning
   \<and> classify 20 10 20 = Some Warning \<and> classify 21 10 20 = Some Error
   \<and> (netScore > errorLimit \<longrightarrow> classify netScore warningLimit errorLimit = Some Error)
   \<and> (\<not> netScore > errorLimit \<and> netScore > warningLimit
        \<longrightarrow> classify netScore warningLimit errorLimit = Some Warning)
   \<and> (\<not> netScore > errorLimit \<and> \<not> netScore > warningLimit
        \<longrightarrow> classify netScore warningLimit errorLimit = None)
   \<and> (netScore \<le> 10 \<longrightarrow> classify netScore 10 20 = None)
   \<and> (warningLimit \<le> errorLimit \<and> netScore \<le> warningLimit
        \<longrightarrow> classify netScore warningLimit errorLimit = None)
   \<and> (findSymbol functionSymbols item = Some symbol \<and> score item = Some netScore
        \<and> netScore \<le> warningLimit \<and> netScore \<le> errorLimit
        \<longrightarrow> fst (processItem warningLimit errorLimit functionSymbols (diagnostics, currentScores) item)
              = diagnostics)"
  by (simp add: classify_def processItem_def)

theorem classify_order_and_boundaries_witness:
  "(0::int) < 7 \<and> classify 7 10 20 = None \<and> classify 25 10 20 = Some Error
   \<and> classify 15 10 20 = Some Warning
   \<and> fst (processItem 10 20 (filterFunctionSymbols exampleSymbols) ([], Map.empty) (itemAtLine 6 4)) = []"
  using classify_order_and_boundaries [where netScore = 7 and warningLimit = 10 and errorLimit = 20]
    classify_order_and_boundaries [where netScore = 25 and warningLimit = 10 and errorLimit = 20]
    classify_order_and_boundaries [where netScore = 15 and warningLimit = 10 and errorLimit = 20]
    classify_order_and_boundaries [where netScore = 4 and warningLimit = 10 and errorLimit = 20
      and functionSymbols = "filterFunctionSymbols exampleSymbols" and item = "itemAtLine 6 4"
      and symbol = functionG and diagnostics = "[]" and currentScores = Map.empty]
  by (simp add: symbols_eval processItem_def classify_def)

text \<open>
  C5 (as amended). When the error threshold is set below the warning threshold, every
  score above the error threshold is classified Error, and no score at all is classified
  Warning: the error test is evaluated first and wins.
\<close>

theorem classify_misconfigured_error_wins:
  assumes "errorLimit < warningLimit"
  shows "(errorLimit < netScore \<longrightarrow> classify netScore warningLimit errorLimit = Some Error)
         \<and> classify netScore warningLimit errorLimit \<noteq> Some Warning"
  using assms by (simp add: classify_def)

theorem classify_misconfigured_error_wins_witness:
  "(3::int) < 10 \<and> (3::int) < 5 \<and> classify 5 10 3 = Some Error \<and> classify 15 10 3 = Some Error
   \<and> classify 2 10 3 = None"
  using classify_misconfigured_error_wins [of 3 10 5] classify_misconfigured_error_wins [of 3 10 15]
  by (simp add: classify_def)

text \<open>C5 as stated fails: with warning threshold 10 and error threshold 3, the scores 5
  and 15 are above the error threshold and are classified Error, not Warning.\<close>

theorem classify_misconfigured_counterexample:
  "classify 5 10 3 = Some Error \<and> classify 15 10 3 = Some Error"
  by (simp add: classify_def)

subsection \<open>DebouncedAnalyzer\<close>

text \<open>
  C6. When a started run ends in failure, because the complexity service failed or
  because the symbol service failed after the complexity service had answered (an
  exception while reading either answer counts as that service's failure), the run
  stores nothing: the document's entry of the diagnostic collection and its entry of
  the score cache are deleted, every other document's entries are as before, the error
  is appended to the console log, and the timers are untouched.
\<close>

theorem failed_run_clears_and_logs:
  "List.find (\<lambda>x. fst x = h) (running st) = Some (h, doc, config)
   \<and> (outputResult = Inl e \<or> (\<exists>fileOutput. outputResult = Inr fileOutput \<and> symbolsResult = Inl e))
   \<longrightarrow> (let st' = step st (RunCompletes h outputResult symbolsResult) in
          diagnosticCollection st' = (diagnosticCollection st)(uri doc := None)
          \<and> complexityScores st' = (complexityScores st)(uri doc := None)
          \<and> consoleErrors st' = consoleErrors st @ [e]
          \<and> debounceTimers st' = debounceTimers st
          \<and> timeouts st' = timeouts st)"
  by (auto simp: runCompletes_def finishRun_def analyse_def deleteDiagnosticsAndScores_def Let_def)

text \<open>The document has a published diagnostic and cached scores, and a second run is in
  flight; whichever service fails, both entries are gone afterwards and the log holds the
  error.\<close>

theorem failed_run_clears_and_logs_witness:
  "diagnosticCollection publishedState (uri docA) \<noteq> None
   \<and> complexityScores publishedState (uri docA) \<noteq> None
   \<and> diagnosticCollection
        (step publishedState (RunCompletes 1 (Inl (AnalysisFailure ''unreadable'')) (Inr None)))
        (uri docA) = None
   \<and> complexityScores
        (step publishedState (RunCompletes 1 (Inl (AnalysisFailure ''unreadable'')) (Inr None)))
        (uri docA) = None
   \<and> consoleErrors
        (step publishedState (RunCompletes 1 (Inl (AnalysisFailure ''unreadable'')) (Inr None)))
        = [AnalysisFailure ''unreadable'']
   \<and> diagnosticCollection
        (step publishedState
           (RunCompletes 1 (Inr exampleOutput) (Inl (SymbolDiscoveryFailure ''no provider''))))
        (uri docA) = None
   \<and> consoleErrors
        (step publishedState
           (RunCompletes 1 (Inr exampleOutput) (Inl (SymbolDiscoveryFailure ''no provider''))))
        = [SymbolDiscoveryFailure ''no provider'']"
  using failed_run_clears_and_logs [of 1 publishedState docA configOn
      "Inl (AnalysisFailure ''unreadable'')" "AnalysisFailure ''unreadable''" "Inr None"]
    failed_run_clears_and_logs [of 1 publishedState docA configOn
      "Inr exampleOutput" "SymbolDiscoveryFailure ''no provider''"
      "Inl (SymbolDiscoveryFailure ''no provider'')"]
  by (simp add: publishedState_def docA_def Let_def)

text \<open>
  C7 (as amended). In every reachable state each document has at most one armed debounce
  timer. A burst of one or more qualifying events for a supported document with the
  extension enabled, with no timer firing in between, leaves exactly one armed timer for
  the document, carrying the configuration of the last event; the burst itself starts no
  run, and when that timer fires exactly one run starts and no timer remains for the
  document. The number of runs in flight is not bounded: see the counterexample.
\<close>

theorem debounce_one_timer_one_run:
  "length (timersFor (run initialState events) u) \<le> 1
   \<and> (isSupportedLanguage doc \<and> configs \<noteq> [] \<and> (\<forall>c \<in> set configs. enabled c) \<longrightarrow>
        (let st = run initialState events;
             burst = run st (map (Qualifying (Some doc)) configs);
             h = nextTimeout st + length configs - 1
         in timersFor burst (uri doc) = [(h, doc, last configs)]
            \<and> running burst = running st
            \<and> running (step burst (TimerFires h)) = running st @ [(h, doc, last configs)]
            \<and> timersFor (step burst (TimerFires h)) (uri doc) = []))"
proof -
  let ?st = "run initialState events"
  have tracked: "timersTracked ?st"
    using timersTracked_initial by (rule timersTracked_run)
  have one: "length (timersFor ?st u) \<le> 1"
    using tracked by (rule timersFor_short)
  have "let st = ?st;
            burst = run st (map (Qualifying (Some doc)) configs);
            h = nextTimeout st + length configs - 1
        in timersFor burst (uri doc) = [(h, doc, last configs)]
           \<and> running burst = running st
           \<and> running (step burst (TimerFires h)) = running st @ [(h, doc, last configs)]
           \<and> timersFor (step burst (TimerFires h)) (uri doc) = []"
    if hyp: "isSupportedLanguage doc \<and> configs \<noteq> [] \<and> (\<forall>c \<in> set configs. enabled c)"
  proof -
    let ?burst = "run ?st (map (Qualifying (Some doc)) configs)"
    let ?h = "nextTimeout ?st + length configs - 1"
    from burst_arms_one [OF tracked, of doc configs] hyp
    have b: "running ?burst = running ?st"
      "timersFor ?burst (uri doc) = [(?h, doc, last configs)]"
      by simp_all
    have tb: "timersTracked ?burst"
      using tracked by (rule timersTracked_run)
    from timerFires_starts_run [OF tb b(2), of ?h]
    have "running (timerFires ?burst ?h) = running ?burst @ [(?h, doc, last configs)]"
      "timersFor (timerFires ?burst ?h) (uri doc) = []"
      by simp_all
    with b show ?thesis
      by (simp add: Let_def)
  qed
  with one show ?thesis by blast
qed

text \<open>One event arms timer 0; a burst of two more events replaces it by timer 1 and then
  by timer 2, which carries the last configuration. Timers 0 and 1 can no longer fire;
  timer 2 starts the one run.\<close>

theorem debounce_one_timer_one_run_witness:
  "isSupportedLanguage docA \<and> enabled configOn \<and> enabled configStrict
   \<and> timersFor (run initialState [Qualifying (Some docA) configOn]) (uri docA)
       = [(0, docA, configOn)]
   \<and> timersFor (run (run initialState [Qualifying (Some docA) configOn])
                   (map (Qualifying (Some docA)) [configOn, configStrict])) (uri docA)
       = [(2, docA, configStrict)]
   \<and> step (run (run initialState [Qualifying (Some docA) configOn])
                   (map (Qualifying (Some docA)) [configOn, configStrict])) (TimerFires 0)
       = run (run initialState [Qualifying (Some docA) configOn])
                   (map (Qualifying (Some docA)) [configOn, configStrict])
   \<and> running (step (run (run initialState [Qualifying (Some docA) configOn])
                   (map (Qualifying (Some docA)) [configOn, configStrict])) (TimerFires 2))
       = [(2, docA, configStrict)]"
  using debounce_one_timer_one_run [of "[Qualifying (Some docA) configOn]" "uri docA" docA
      "[configOn, configStrict]"]
  by (simp add: state_eval)

text \<open>C7 as stated fails for the runs in flight: an event that arrives while a run waits
  for the services arms a new timer, and when it fires a second run of the same document
  starts beside the first.\<close>

theorem overlapping_runs_counterexample:
  "length (runsFor (run initialState
       [Qualifying (Some docA) configOn, TimerFires 0,
        Qualifying (Some docA) configOn, TimerFires 1]) (uri docA)) = 2"
  by (simp add: state_eval)




text \<open>
  C9. The unsupported branch and the disabled branch of \<open>processActiveFile\<close> delete the
  document's diagnostics and cached scores and return; unlike the close handler they
  leave a pending debounce timer armed and recorded. With a timer pending for the
  document, an event with the extension disabled, or with the document's language
  switched to an unsupported one, leaves timer 0 armed, where closing the document
  disarms it; the timer then fires and its run publishes a diagnostic for the document
  although the extension is disabled.
\<close>

theorem disable_leaves_timer_armed:
  "timersFor (run initialState [Qualifying (Some docA) configOn, Qualifying (Some docA) configOff])
      (uri docA) = [(0, docA, configOn)]
   \<and> debounceTimers
        (run initialState [Qualifying (Some docA) configOn, Qualifying (Some docA) configOff])
        (uri docA) = Some 0
   \<and> timersFor
        (run initialState [Qualifying (Some docA) configOn, Qualifying (Some docAPlain) configOn])
        (uri docA) = [(0, docA, configOn)]
   \<and> timersFor
        (run initialState [Qualifying (Some docA) configOn, DidCloseTextDocument docA])
        (uri docA) = []
   \<and> debounceTimers
        (run initialState [Qualifying (Some docA) configOn, DidCloseTextDocument docA])
        (uri docA) = None
   \<and> diagnosticCollection
        (run initialState
           [Qualifying (Some docA) configOn, Qualifying (Some docA) configOff, TimerFires 0,
            RunCompletes 0 (Inr exampleOutput) (Inr (Some exampleSymbols))])
        (uri docA)
      = Some [\<lparr>diagnosticRange = nameRange 1, message = ''Cognitive Complexity: 25'',
               severity = Error, source = ''tsCognilint''\<rparr>]"
  by (simp add: state_eval analyse_example)

text \<open>
  C10. Whenever an entry is matched to a symbol, the loop stores the entry's score under
  the range string of the symbol's selection range before it looks at the severity, so
  the score is stored also when the severity is none and no diagnostic is pushed. When a
  run succeeds, the diagnostics it publishes and the scores it caches for the document
  are the two results of the loop; the range string of every published diagnostic is a
  key of the cached scores, and so is the range string of the symbol matched by any
  entry, whatever its severity.
\<close>

theorem scores_cached_before_severity:
  "(findSymbol functionSymbols item = Some symbol \<and> score item = Some sc \<longrightarrow>
      snd (processItem warningLimit errorLimit functionSymbols (diagnostics, currentScores) item)
        = currentScores(rangeToString (selectionRange symbol) \<mapsto> sc)
      \<and> (classify sc warningLimit errorLimit = None \<longrightarrow>
           fst (processItem warningLimit errorLimit functionSymbols (diagnostics, currentScores) item)
             = diagnostics))
   \<and> (\<exists>published cached.
        analyse (warningThreshold config) (errorThreshold config) (Inr fileOutput) (Inr symbols)
          = Inr (published, cached)
        \<and> diagnosticCollection (finishRun st doc config (Inr fileOutput) (Inr symbols)) (uri doc)
            = Some published
        \<and> complexityScores (finishRun st doc config (Inr fileOutput) (Inr symbols)) (uri doc)
            = Some cached
        \<and> (\<forall>d \<in> set published. rangeToString (diagnosticRange d) \<in> dom cached)
        \<and> (\<forall>entry \<in> set (flattenInner (case outputInner fileOutput of None \<Rightarrow> [] | Some xs \<Rightarrow> xs)).
             \<forall>matched.
               findSymbol (filterFunctionSymbols (case symbols of None \<Rightarrow> [] | Some ss \<Rightarrow> ss)) entry
                 = Some matched
               \<longrightarrow> rangeToString (selectionRange matched) \<in> dom cached))"
proof -
  let ?items = "flattenInner (case outputInner fileOutput of None \<Rightarrow> [] | Some xs \<Rightarrow> xs)"
  let ?fs = "filterFunctionSymbols (case symbols of None \<Rightarrow> [] | Some ss \<Rightarrow> ss)"
  let ?w = "warningThreshold config" and ?e = "errorThreshold config"
  let ?res = "foldl (processItem ?w ?e ?fs) ([], Map.empty) ?items"
  have an: "analyse ?w ?e (Inr fileOutput) (Inr symbols) = Inr (fst ?res, snd ?res)"
    by (simp add: analyse_def Let_def)
  have pub: "diagnosticCollection (finishRun st doc config (Inr fileOutput) (Inr symbols)) (uri doc)
               = Some (fst ?res)"
    and cache: "complexityScores (finishRun st doc config (Inr fileOutput) (Inr symbols)) (uri doc)
               = Some (snd ?res)"
    by (simp_all add: finishRun_def an)
  have "covered ?res"
    by (rule foldl_processItem_covered) (simp add: covered_def)
  then have cov: "\<forall>d \<in> set (fst ?res). rangeToString (diagnosticRange d) \<in> dom (snd ?res)"
    by (simp add: covered_def)
  have keys: "\<forall>entry \<in> set ?items. \<forall>matched. findSymbol ?fs entry = Some matched
                \<longrightarrow> rangeToString (selectionRange matched) \<in> dom (snd ?res)"
    using foldl_processItem_keys flattenInner_score by blast
  have step: "findSymbol functionSymbols item = Some symbol \<and> score item = Some sc \<longrightarrow>
      snd (processItem warningLimit errorLimit functionSymbols (diagnostics, currentScores) item)
        = currentScores(rangeToString (selectionRange symbol) \<mapsto> sc)
      \<and> (classify sc warningLimit errorLimit = None \<longrightarrow>
           fst (processItem warningLimit errorLimit functionSymbols (diagnostics, currentScores) item)
             = diagnostics)"
    using processItem_matched(1,2) by blast
  from an pub cache cov keys have
    "\<exists>published cached.
        analyse ?w ?e (Inr fileOutput) (Inr symbols) = Inr (published, cached)
        \<and> diagnosticCollection (finishRun st doc config (Inr fileOutput) (Inr symbols)) (uri doc)
            = Some published
        \<and> complexityScores (finishRun st doc config (Inr fileOutput) (Inr symbols)) (uri doc)
            = Some cached
        \<and> (\<forall>d \<in> set published. rangeToString (diagnosticRange d) \<in> dom cached)
        \<and> (\<forall>entry \<in> set ?items. \<forall>matched. findSymbol ?fs entry = Some matched
               \<longrightarrow> rangeToString (selectionRange matched) \<in> dom cached)"
    by blast
  with step show ?thesis by blast
qed

text \<open>The entry on line 6 has score 4, which is no severity under thresholds 10 and 20:
  it is in the cache under the key of \<open>g\<close> and has no diagnostic.\<close>

theorem scores_cached_before_severity_witness:
  "classify 4 10 20 = None
   \<and> diagnosticCollection
        (finishRun initialState docA configOn (Inr exampleOutput) (Inr (Some exampleSymbols)))
        (uri docA)
      = Some [\<lparr>diagnosticRange = nameRange 1, message = ''Cognitive Complexity: 25'',
               severity = Error, source = ''tsCognilint''\<rparr>]
   \<and> complexityScores
        (finishRun initialState docA configOn (Inr exampleOutput) (Inr (Some exampleSymbols)))
        (uri docA)
      = Some [''1,4-1,9'' \<mapsto> 25, ''5,4-5,9'' \<mapsto> 4]
   \<and> rangeToString (nameRange 1) = ''1,4-1,9''
   \<and> rangeToString (selectionRange functionG) = ''5,4-5,9''"
  using scores_cached_before_severity [where config = configOn and fileOutput = exampleOutput
      and symbols = "Some exampleSymbols" and st = initialState and doc = docA
      and functionSymbols = "filterFunctionSymbols exampleSymbols" and item = "itemAtLine 6 4"
      and symbol = functionG and sc = 4 and warningLimit = 10 and errorLimit = 20
      and diagnostics = "[]" and currentScores = Map.empty]
  by (simp add: finishRun_def configOn_def analyse_example classify_def docA_def initialState_def
      show_eval nameRange_def functionG_def)

end
